theory Spec2Isabelle
  imports Complex_Main
begin

section \<open>Data model of \<open>train_speechT5.py\<close>\<close>

text \<open>
  Python exceptions are values: every function that can raise returns \<open>error + 'a\<close>,
  with \<open>Inl\<close> for the exception.
\<close>

datatype error = ValueError | RuntimeError | ParameterError | IOError

text \<open>Audio samples and spectrogram cells are floating-point numbers; only their
  position and the constant zero matter below, so they are read as reals.\<close>

type_synonym sample = real

text \<open>A two-dimensional numpy array: its shape and its rows.\<close>

record ndarray2 =
  nrows :: nat
  ncols :: nat
  cells :: "sample list list"

definition wf_array :: "ndarray2 \<Rightarrow> bool" where
  "wf_array m \<longleftrightarrow>
     length (cells m) = nrows m \<and> list_all (\<lambda>r. length r = ncols m) (cells m)"

text \<open>A two-dimensional integer tensor and a three-dimensional float tensor of torch.\<close>

record tensor2 =
  t2_rows :: nat
  t2_cols :: nat
  t2_data :: "int list list"

record tensor3 =
  t3_batch :: nat
  t3_rows :: nat
  t3_cols :: nat
  t3_data :: "sample list list list"

text \<open>One element of a batch: the dictionary built by \<open>prepare_dataset\<close>, restricted
  to the three keys the collator reads.\<close>

record feature =
  input_ids :: "int list"
  attention_mask :: "int list"
  labels :: "sample list"

text \<open>The collator object: \<open>self.processor.tokenizer.pad_token_id\<close> and
  \<open>self.target_length\<close>.\<close>

record collator =
  pad_token_id :: int
  target_length :: nat

text \<open>The dictionary returned by the collator.\<close>

record batch =
  b_input_ids :: tensor2
  b_attention_mask :: tensor2
  b_labels :: tensor3

subsection \<open>The numeric libraries\<close>

text \<open>
  \<open>librosa.feature.melspectrogram\<close>, \<open>librosa.power_to_db\<close> and the conversion of
  torch to \<open>float32\<close> are not code of this repository. They are parameters of the
  model; the arguments the source passes to them are kept.
\<close>

datatype pad_mode = Reflect | Constant | Edge

datatype db_ref = RefMax | RefValue real

record mel_params =
  sr :: nat
  n_mels :: nat
  n_fft :: nat
  hop_length :: nat
  win_length :: nat
  center :: bool
  pad_mode :: pad_mode

record numlib =
  melspectrogram :: "mel_params \<Rightarrow> sample list \<Rightarrow> ndarray2"
  power_to_db :: "db_ref \<Rightarrow> ndarray2 \<Rightarrow> ndarray2"
  float32 :: "sample \<Rightarrow> sample"

text \<open>The keyword arguments of the call at lines 47 to 56.\<close>

definition collator_mel_params :: mel_params where
  "collator_mel_params =
     \<lparr>sr = 16000, n_mels = 80, n_fft = 2048, hop_length = 512, win_length = 2048,
      center = True, pad_mode = Reflect\<rparr>"

subsection \<open>Array primitives\<close>

text \<open>\<open>m.T\<close>\<close>

definition transpose_T :: "ndarray2 \<Rightarrow> ndarray2" where
  "transpose_T m =
     \<lparr>nrows = ncols m, ncols = nrows m,
      cells = map (\<lambda>j. map (\<lambda>r. r ! j) (cells m)) [0..<ncols m]\<rparr>"

text \<open>\<open>m[:n, :]\<close>\<close>

definition slice_rows :: "nat \<Rightarrow> ndarray2 \<Rightarrow> ndarray2" where
  "slice_rows n m = \<lparr>nrows = min n (nrows m), ncols = ncols m, cells = take n (cells m)\<rparr>"

text \<open>\<open>np.zeros((n, k))\<close>\<close>

definition np_zeros :: "nat \<Rightarrow> nat \<Rightarrow> ndarray2" where
  "np_zeros n k = \<lparr>nrows = n, ncols = k, cells = replicate n (replicate k 0)\<rparr>"

text \<open>\<open>np.concatenate([a, b], axis=0)\<close>: the column counts must agree.\<close>

definition np_concatenate0 :: "ndarray2 \<Rightarrow> ndarray2 \<Rightarrow> error + ndarray2" where
  "np_concatenate0 a b =
     (if ncols a \<noteq> ncols b then Inl ValueError
      else Inr \<lparr>nrows = nrows a + nrows b, ncols = ncols a, cells = cells a @ cells b\<rparr>)"

text \<open>\<open>np.stack(ms)\<close>: at least one array, all of one shape.\<close>

definition np_stack :: "ndarray2 list \<Rightarrow> error + tensor3" where
  "np_stack ms =
     (case ms of
        [] \<Rightarrow> Inl ValueError
      | m # rest \<Rightarrow>
          if list_all (\<lambda>x. nrows x = nrows m \<and> ncols x = ncols m) rest
          then Inr \<lparr>t3_batch = length ms, t3_rows = nrows m, t3_cols = ncols m,
                    t3_data = map cells ms\<rparr>
          else Inl ValueError)"

text \<open>\<open>torch.tensor(a, dtype=torch.float32)\<close> on a stacked array.\<close>

definition torch_tensor_float32 :: "numlib \<Rightarrow> tensor3 \<Rightarrow> tensor3" where
  "torch_tensor_float32 lib t = t\<lparr>t3_data := map (map (map (float32 lib))) (t3_data t)\<rparr>"

text \<open>\<open>torch.tensor(xs, dtype=torch.long)\<close> on a non-empty list of lists: the rows must
  have one length, and every entry must fit in 64 bits.\<close>

definition in_long :: "int \<Rightarrow> bool" where
  "in_long x \<longleftrightarrow> - (2 ^ 63) \<le> x \<and> x < 2 ^ 63"

definition torch_tensor_long :: "int list list \<Rightarrow> error + tensor2" where
  "torch_tensor_long xs =
     (case xs of
        [] \<Rightarrow> Inl ValueError
      | r # rest \<Rightarrow>
          if \<not> list_all (\<lambda>x. length x = length r) rest then Inl ValueError
          else if \<not> list_all (list_all in_long) xs then Inl RuntimeError
          else Inr \<lparr>t2_rows = length xs, t2_cols = length r, t2_data = xs\<rparr>)"

text \<open>\<open>max(len(ids) for ids in input_ids)\<close>: raises on an empty sequence.\<close>

definition max_len :: "int list list \<Rightarrow> error + nat" where
  "max_len xss = (case xss of [] \<Rightarrow> Inl ValueError | x # xs \<Rightarrow> Inr (fold max (map length xs) (length x)))"

section \<open>\<open>CustomDataCollator.__call__\<close>\<close>

text \<open>Lines 24 to 27: the loop over \<open>zip(input_ids, attention_mask)\<close>, with the two
  lists it appends to.\<close>

fun pad_loop ::
  "int \<Rightarrow> nat \<Rightarrow> (int list \<times> int list) list \<Rightarrow> int list list \<Rightarrow> int list list
     \<Rightarrow> int list list \<times> int list list" where
  "pad_loop pad max_length [] padded_input_ids padded_attention_mask =
     (padded_input_ids, padded_attention_mask)"
| "pad_loop pad max_length ((ids, amask) # rest) padded_input_ids padded_attention_mask =
     (let padding_length = max_length - length ids in
      pad_loop pad max_length rest
        (padded_input_ids @ [ids @ replicate padding_length pad])
        (padded_attention_mask @ [amask @ replicate padding_length 0]))"

text \<open>Lines 40 to 44: the waveform cut or zero-padded to \<open>target_length * 512\<close> samples.\<close>

definition fix_audio :: "nat \<Rightarrow> sample list \<Rightarrow> sample list" where
  "fix_audio tlen audio =
     (let target_audio_length = tlen * 512 in
      if length audio > target_audio_length then take target_audio_length audio
      else audio @ replicate (target_audio_length - length audio) 0)"

text \<open>Lines 47 to 61: mel spectrogram, decibels, transposition.\<close>

definition clip_spectrogram :: "numlib \<Rightarrow> sample list \<Rightarrow> ndarray2" where
  "clip_spectrogram lib audio =
     transpose_T (power_to_db lib RefMax (melspectrogram lib collator_mel_params audio))"

text \<open>Lines 64 to 68: exactly \<open>target_length\<close> frames.\<close>

definition fix_frames :: "nat \<Rightarrow> ndarray2 \<Rightarrow> error + ndarray2" where
  "fix_frames tlen mel_spec =
     (if nrows mel_spec > tlen then Inr (slice_rows tlen mel_spec)
      else if nrows mel_spec < tlen then
        np_concatenate0 mel_spec (np_zeros (tlen - nrows mel_spec) 80)
      else Inr mel_spec)"

text \<open>Lines 38 to 70: the loop over \<open>speech_arrays\<close>, with the list it appends to.\<close>

fun mel_loop :: "numlib \<Rightarrow> nat \<Rightarrow> sample list list \<Rightarrow> ndarray2 list \<Rightarrow> error + ndarray2 list" where
  "mel_loop lib tlen [] mel_specs = Inr mel_specs"
| "mel_loop lib tlen (audio # rest) mel_specs =
     (case fix_frames tlen (clip_spectrogram lib (fix_audio tlen audio)) of
        Inl e \<Rightarrow> Inl e
      | Inr mel_spec \<Rightarrow> mel_loop lib tlen rest (mel_specs @ [mel_spec]))"

definition collator_call :: "numlib \<Rightarrow> collator \<Rightarrow> feature list \<Rightarrow> error + batch" where
  "collator_call lib self features =
     (let ids_list = map input_ids features;
          mask_list = map attention_mask features
      in case max_len ids_list of
           Inl e \<Rightarrow> Inl e
         | Inr max_length \<Rightarrow>
             (let (padded_input_ids, padded_attention_mask) =
                    pad_loop (pad_token_id self) max_length (zip ids_list mask_list) [] []
              in case torch_tensor_long padded_input_ids of
                   Inl e \<Rightarrow> Inl e
                 | Inr input_ids_tensor \<Rightarrow>
                     (case torch_tensor_long padded_attention_mask of
                        Inl e \<Rightarrow> Inl e
                      | Inr attention_mask_tensor \<Rightarrow>
                          (case mel_loop lib (target_length self) (map labels features) [] of
                             Inl e \<Rightarrow> Inl e
                           | Inr mel_specs \<Rightarrow>
                               (case np_stack mel_specs of
                                  Inl e \<Rightarrow> Inl e
                                | Inr stacked \<Rightarrow>
                                    Inr \<lparr>b_input_ids = input_ids_tensor,
                                         b_attention_mask = attention_mask_tensor,
                                         b_labels = torch_tensor_float32 lib stacked\<rparr>)))))"

subsection \<open>What the callers and the libraries guarantee\<close>

text \<open>
  A feature as \<open>prepare_dataset\<close> builds it: the attention mask is parallel to the token
  ids, and both hold 64-bit values (they are read off \<open>int64\<close> tensors).
\<close>

definition wf_feature :: "feature \<Rightarrow> bool" where
  "wf_feature f \<longleftrightarrow>
     length (attention_mask f) = length (input_ids f) \<and>
     list_all in_long (input_ids f) \<and> list_all in_long (attention_mask f)"

text \<open>
  The shapes librosa documents: \<open>melspectrogram\<close> returns \<open>n_mels\<close> rows and, with
  centered framing, \<open>1 + len(y) // hop_length\<close> columns; \<open>power_to_db\<close> works cell by
  cell and keeps the shape.
\<close>

definition librosa_shapes :: "numlib \<Rightarrow> bool" where
  "librosa_shapes lib \<longleftrightarrow>
     (\<forall>p y. wf_array (melspectrogram lib p y) \<and>
            nrows (melspectrogram lib p y) = n_mels p \<and>
            (center p \<longrightarrow> ncols (melspectrogram lib p y) = 1 + length y div hop_length p)) \<and>
     (\<forall>r m. nrows (power_to_db lib r m) = nrows m \<and>
            ncols (power_to_db lib r m) = ncols m \<and>
            (wf_array m \<longrightarrow> wf_array (power_to_db lib r m)))"

section \<open>\<open>load_audio\<close> and \<open>prepare_dataset\<close>\<close>

text \<open>
  The file system, \<open>librosa.load\<close> and the pretrained processor are outside the
  repository. \<open>librosa_load\<close> takes the path, the sample rate and the duration limit and
  either raises or returns the samples; \<open>processor\<close> takes the text and \<open>max_length\<close>
  and returns the first row of \<open>input_ids\<close> and of \<open>attention_mask\<close>. What the
  functions print is not modelled.
\<close>

record world =
  path_exists :: "string \<Rightarrow> bool"
  librosa_load :: "string \<Rightarrow> nat \<Rightarrow> real \<Rightarrow> error + sample list"
  processor :: "string \<Rightarrow> nat \<Rightarrow> int list \<times> int list"

text \<open>
  \<open>librosa.util.normalize(S)\<close> with the arguments the source leaves at their defaults
  (\<open>norm=np.inf\<close>, \<open>threshold=None\<close>, \<open>fill=None\<close>), as librosa documents it: the
  array is divided by its largest magnitude; when that magnitude is below the threshold,
  which is the smallest positive normal number of the array's type (\<open>float32\<close> for what
  \<open>librosa.load\<close> returns), the array is left as it is. Samples are finite numbers
  here, on which the function does not raise. \<open>peak\<close> is \<open>np.max(np.abs(S))\<close>; no
  magnitude is below 0, and the source calls it on non-empty arrays only.
\<close>

definition tiny :: real where
  "tiny = 1 / 2 ^ 126"

definition peak :: "sample list \<Rightarrow> real" where
  "peak S = fold max (map abs S) 0"

definition util_normalize :: "sample list \<Rightarrow> sample list" where
  "util_normalize S =
     (let mag = peak S in
      if mag < tiny then S else map (\<lambda>x. x / mag) S)"

text \<open>\<open>os.path.join(a, b)\<close> on POSIX.\<close>

definition path_join :: "string \<Rightarrow> string \<Rightarrow> string" where
  "path_join a b =
     (if b \<noteq> [] \<and> hd b = CHR ''/'' then b
      else if a = [] \<or> last a = CHR ''/'' then a @ b
      else a @ ''/'' @ b)"

text \<open>Lines 81 to 99. \<open>None\<close> is \<open>None\<close>; an exception inside the \<open>try\<close> is caught.\<close>

definition load_audio :: "world \<Rightarrow> string \<Rightarrow> string \<Rightarrow> real \<Rightarrow> sample list option" where
  "load_audio w file_path dataset_dir max_duration =
     (let full_path = path_join dataset_dir file_path in
      if \<not> path_exists w full_path then None
      else case librosa_load w full_path 16000 max_duration of
             Inl e \<Rightarrow> None
           | Inr speech_array \<Rightarrow>
               if length speech_array > 0 then Some (util_normalize speech_array) else None)"

text \<open>A row of the dataframe (the columns \<open>Audio Path\<close> and \<open>Text\<close>); \<open>iterrows\<close>
  yields it with its index. An item of \<open>processed_data\<close> is a feature with its text.\<close>

record df_row =
  audio_path :: string
  text_col :: string

record processed_item = feature +
  item_text :: string

datatype dataset = Dataset "processed_item list"

fun dataset_len :: "dataset \<Rightarrow> nat" where
  "dataset_len (Dataset items) = length items"

text \<open>Lines 106 to 128: the loop over \<open>df.iterrows()\<close>, with the list it appends to. The
  call of \<open>load_audio\<close> leaves \<open>max_duration\<close> at its default 10.0.\<close>

fun prepare_loop ::
  "world \<Rightarrow> string \<Rightarrow> (int \<times> df_row) list \<Rightarrow> processed_item list \<Rightarrow> processed_item list" where
  "prepare_loop w dataset_dir [] processed_data = processed_data"
| "prepare_loop w dataset_dir ((idx, row) # rest) processed_data =
     (case load_audio w (audio_path row) dataset_dir 10 of
        None \<Rightarrow> prepare_loop w dataset_dir rest processed_data
      | Some audio \<Rightarrow>
          (let (ids, amask) = processor w (text_col row) 256;
               processed_item = \<lparr>input_ids = ids, attention_mask = amask, labels = audio,
                                  item_text = text_col row\<rparr>
           in prepare_loop w dataset_dir rest (processed_data @ [processed_item])))"

text \<open>Lines 101 to 134.\<close>

definition prepare_dataset :: "world \<Rightarrow> (int \<times> df_row) list \<Rightarrow> string \<Rightarrow> error + dataset" where
  "prepare_dataset w df dataset_dir =
     (let processed_data = prepare_loop w dataset_dir df [] in
      if processed_data = [] then Inl ValueError
      else Inr (Dataset processed_data))"

text \<open>Whether the audio of a row loads.\<close>

definition loads :: "world \<Rightarrow> string \<Rightarrow> int \<times> df_row \<Rightarrow> bool" where
  "loads w dataset_dir r \<longleftrightarrow> load_audio w (audio_path (snd r)) dataset_dir 10 \<noteq> None"


section \<open>Concrete inputs\<close>

text \<open>A library instance with the documented shapes (the cell of mel band \<open>k\<close> and frame
  \<open>fr\<close> is \<open>1000 * k + fr\<close> before the conversion to decibels, which subtracts one), a
  collator with the defaults of the script and a batch of two features, used to run the
  definitions.\<close>

definition demo_lib :: numlib where
  "demo_lib =
     \<lparr>melspectrogram = (\<lambda>p y.
        \<lparr>nrows = n_mels p, ncols = 1 + length y div hop_length p,
         cells = map (\<lambda>k. map (\<lambda>fr. real (1000 * k + fr)) [0..<1 + length y div hop_length p])
                   [0..<n_mels p]\<rparr>),
      power_to_db = (\<lambda>r m. m\<lparr>cells := map (map (\<lambda>x. x - 1)) (cells m)\<rparr>),
      float32 = (\<lambda>x. x)\<rparr>"

definition demo_collator :: collator where
  "demo_collator = \<lparr>pad_token_id = 1, target_length = 512\<rparr>"

definition demo_features :: "feature list" where
  "demo_features =
     [\<lparr>input_ids = [4, 5, 6], attention_mask = [1, 1, 1], labels = [1 / 2, - (1 / 4)]\<rparr>,
      \<lparr>input_ids = [7], attention_mask = [1], labels = []\<rparr>]"

definition demo_spec :: ndarray2 where
  "demo_spec = \<lparr>nrows = 2, ncols = 80, cells = replicate 2 (replicate 80 1)\<rparr>"

text \<open>A world with one readable file, one silent file, one unreadable file and one empty
  file.\<close>

definition demo_world :: world where
  "demo_world =
     \<lparr>path_exists = (\<lambda>p. p \<in> {''dataset/wavs/a.wav'', ''dataset/wavs/bad.wav'',
                              ''dataset/wavs/empty.wav'', ''dataset/wavs/silent.wav''}),
      librosa_load = (\<lambda>p rate d.
         if p = ''dataset/wavs/a.wav'' then Inr [1 / 2, - (1 / 4)]
         else if p = ''dataset/wavs/silent.wav'' then Inr [0, 0]
         else if p = ''dataset/wavs/empty.wav'' then Inr []
         else Inl IOError),
      processor = (\<lambda>t n. (map (\<lambda>c. 7) (take n t), map (\<lambda>c. 1) (take n t)))\<rparr>"

definition demo_df :: "(int \<times> df_row) list" where
  "demo_df =
     [(0, \<lparr>audio_path = ''wavs/missing.wav'', text_col = ''no''\<rparr>),
      (1, \<lparr>audio_path = ''wavs/a.wav'', text_col = ''hi''\<rparr>),
      (2, \<lparr>audio_path = ''wavs/bad.wav'', text_col = ''no''\<rparr>)]"

section \<open>Properties\<close>

text \<open>
  Claim C9. Calling the collator on an empty list of features raises: the maximum of
  line 20 is taken over an empty sequence. No output is produced for the empty batch.
\<close>

theorem collator_call_empty: "collator_call lib self [] = Inl ValueError"
  by (simp add: collator_call_def max_len_def)


subsection \<open>The padding loop\<close>

lemma pad_loop_eq:
  "pad_loop pad ml ps a b =
     (a @ map (\<lambda>(ids, m). ids @ replicate (ml - length ids) pad) ps,
      b @ map (\<lambda>(ids, m). m @ replicate (ml - length ids) 0) ps)"
  by (induction pad ml ps a b rule: pad_loop.induct) (simp_all add: Let_def)

lemma fold_max_ge: "(n::nat) \<le> fold max xs n"
  by (induction xs arbitrary: n) (auto intro: order_trans [OF max.cobounded2])

lemma fold_max_mem_ge: "x \<in> set xs \<Longrightarrow> (x::nat) \<le> fold max xs n"
proof (induction xs arbitrary: n)
  case Nil then show ?case by simp
next
  case (Cons y ys)
  show ?case
  proof (cases "x = y")
    case True
    have "y \<le> max y n" by simp
    also have "\<dots> \<le> fold max ys (max y n)" by (rule fold_max_ge)
    finally show ?thesis using True by simp
  next
    case False
    with Cons show ?thesis by simp
  qed
qed

lemma fold_max_in: "fold max xs (n::nat) \<in> insert n (set xs)"
proof (induction xs arbitrary: n)
  case Nil then show ?case by simp
next
  case (Cons y ys)
  have "fold max ys (max y n) \<in> insert (max y n) (set ys)" by (rule Cons.IH)
  moreover have "max y n = y \<or> max y n = n" by (simp add: max_def)
  ultimately show ?case by auto
qed

lemma max_len_Inr:
  assumes "xss \<noteq> []"
  shows "\<exists>n. max_len xss = Inr n \<and> (\<forall>x \<in> set xss. length x \<le> n) \<and> n \<in> length ` set xss"
proof (cases xss)
  case Nil with assms show ?thesis by simp
next
  case (Cons x xs)
  have a: "length x \<le> fold max (map length xs) (length x)" by (rule fold_max_ge)
  have b: "\<forall>y \<in> set xs. length y \<le> fold max (map length xs) (length x)"
    by (simp add: fold_max_mem_ge)
  have c: "fold max (map length xs) (length x) \<in> insert (length x) (set (map length xs))"
    by (rule fold_max_in)
  from a b c Cons show ?thesis by (auto simp: max_len_def)
qed

lemma max_len_Max:
  assumes ne: "xss \<noteq> []"
  shows "max_len xss = Inr (Max (length ` set xss))"
proof -
  from max_len_Inr [OF ne] obtain n where
    n: "max_len xss = Inr n" "\<forall>x \<in> set xss. length x \<le> n" "n \<in> length ` set xss" by blast
  have "Max (length ` set xss) = n"
    using n(2,3) by (intro Max_eqI) auto
  with n(1) show ?thesis by simp
qed

subsection \<open>The spectrogram loop\<close>

lemma fix_audio_length: "length (fix_audio tlen audio) = tlen * 512"
  by (simp add: fix_audio_def Let_def)

lemma wf_transpose_T: "wf_array m \<Longrightarrow> wf_array (transpose_T m)"
  by (simp add: wf_array_def transpose_T_def list_all_iff)

lemma clip_spectrogram_shape:
  assumes "librosa_shapes lib"
  shows "nrows (clip_spectrogram lib audio) = 1 + length audio div 512"
    and "ncols (clip_spectrogram lib audio) = 80"
    and "wf_array (clip_spectrogram lib audio)"
proof -
  let ?m = "melspectrogram lib collator_mel_params audio"
  from assms have m: "wf_array ?m" "nrows ?m = 80" "ncols ?m = 1 + length audio div 512"
    by (simp_all add: librosa_shapes_def collator_mel_params_def)
  from assms have d: "nrows (power_to_db lib RefMax ?m) = nrows ?m"
    "ncols (power_to_db lib RefMax ?m) = ncols ?m" "wf_array (power_to_db lib RefMax ?m)"
    using m(1) by (simp_all add: librosa_shapes_def)
  show "nrows (clip_spectrogram lib audio) = 1 + length audio div 512"
    by (simp add: clip_spectrogram_def transpose_T_def d m)
  show "ncols (clip_spectrogram lib audio) = 80"
    by (simp add: clip_spectrogram_def transpose_T_def d m)
  show "wf_array (clip_spectrogram lib audio)"
    unfolding clip_spectrogram_def by (rule wf_transpose_T) (rule d(3))
qed

lemma fix_frames_cells:
  assumes "wf_array m" and "ncols m = 80"
  shows "fix_frames tlen m =
           Inr \<lparr>nrows = tlen, ncols = 80,
                cells = take tlen (cells m) @ replicate (tlen - nrows m) (replicate 80 0)\<rparr>"
proof -
  from assms have len: "length (cells m) = nrows m" by (simp add: wf_array_def)
  consider "nrows m > tlen" | "nrows m < tlen" | "nrows m = tlen" by linarith
  then show ?thesis
  proof cases
    case 1
    then show ?thesis using assms(2) by (simp add: fix_frames_def slice_rows_def)
  next
    case 2
    then show ?thesis using assms(2) len
      by (simp add: fix_frames_def np_concatenate0_def np_zeros_def)
  next
    case 3
    then show ?thesis using assms(2) len by (simp add: fix_frames_def)
  qed
qed

lemma mel_loop_Inr:
  "mel_loop lib tlen audios acc = Inr ms \<Longrightarrow>
     length ms = length acc + length audios \<and> take (length acc) ms = acc \<and>
     (\<forall>i < length audios.
        fix_frames tlen (clip_spectrogram lib (fix_audio tlen (audios ! i))) =
          Inr (ms ! (length acc + i)))"
proof (induction lib tlen audios acc rule: mel_loop.induct)
  case (1 lib tlen mel_specs)
  then show ?case by simp
next
  case (2 lib tlen audio rest mel_specs)
  from "2.prems" obtain m where
    m: "fix_frames tlen (clip_spectrogram lib (fix_audio tlen audio)) = Inr m"
    and rec: "mel_loop lib tlen rest (mel_specs @ [m]) = Inr ms"
    by (auto split: sum.splits)
  from "2.IH" [OF m rec] have ih:
    "length ms = length (mel_specs @ [m]) + length rest"
    "take (length (mel_specs @ [m])) ms = mel_specs @ [m]"
    "\<forall>i < length rest.
        fix_frames tlen (clip_spectrogram lib (fix_audio tlen (rest ! i))) =
          Inr (ms ! (length (mel_specs @ [m]) + i))"
    by blast+
  have len: "length ms = length mel_specs + length (audio # rest)" using ih(1) by simp
  have "take (length mel_specs) (take (length (mel_specs @ [m])) ms) = take (length mel_specs) (mel_specs @ [m])"
    by (simp only: ih(2))
  then have pre: "take (length mel_specs) ms = mel_specs" by (simp add: min_def)
  have "ms ! length mel_specs = (take (length (mel_specs @ [m])) ms) ! length mel_specs"
    by simp
  also have "\<dots> = m" by (simp only: ih(2)) simp
  finally have at: "ms ! length mel_specs = m" .
  have all: "\<forall>i < length (audio # rest).
        fix_frames tlen (clip_spectrogram lib (fix_audio tlen ((audio # rest) ! i))) =
          Inr (ms ! (length mel_specs + i))"
  proof (intro allI impI)
    fix i assume "i < length (audio # rest)"
    show "fix_frames tlen (clip_spectrogram lib (fix_audio tlen ((audio # rest) ! i))) =
          Inr (ms ! (length mel_specs + i))"
    proof (cases i)
      case 0
      then show ?thesis using m at by simp
    next
      case (Suc j)
      with \<open>i < length (audio # rest)\<close> have "j < length rest" by simp
      with ih(3) Suc show ?thesis by simp
    qed
  qed
  from len pre all show ?case by blast
qed

lemma mel_loop_shapes:
  assumes "librosa_shapes lib"
  shows "mel_loop lib tlen audios acc =
           Inr (acc @ map (\<lambda>a. \<lparr>nrows = tlen, ncols = 80,
                  cells = take tlen (cells (clip_spectrogram lib (fix_audio tlen a)))\<rparr>) audios)"
proof (induction audios arbitrary: acc)
  case Nil
  show ?case by simp
next
  case (Cons a rest)
  let ?c = "clip_spectrogram lib (fix_audio tlen a)"
  have n: "nrows ?c = 1 + tlen" 
    by (simp add: clip_spectrogram_shape(1) [OF assms] fix_audio_length)
  have "fix_frames tlen ?c =
          Inr \<lparr>nrows = tlen, ncols = 80,
               cells = take tlen (cells ?c) @ replicate (tlen - nrows ?c) (replicate 80 0)\<rparr>"
    by (rule fix_frames_cells) (rule clip_spectrogram_shape [OF assms])+
  then have "fix_frames tlen ?c = Inr \<lparr>nrows = tlen, ncols = 80, cells = take tlen (cells ?c)\<rparr>"
    by (simp add: n)
  then show ?case by (simp add: Cons.IH)
qed


subsection \<open>The tensors\<close>

lemma map_zip_fields:
  "map h (zip (map f xs) (map g xs)) = map (\<lambda>x. h (f x, g x)) xs"
  by (induction xs) simp_all

lemma torch_tensor_long_Inr:
  assumes "torch_tensor_long xs = Inr t"
  shows "t2_data t = xs" and "t2_rows t = length xs" and "xs \<noteq> []"
    and "t2_cols t = length (hd xs)"
  using assms by (auto simp: torch_tensor_long_def split: list.splits if_splits)

lemma torch_tensor_long_rect:
  assumes "xs \<noteq> []" and "\<forall>r \<in> set xs. length r = n" and "\<forall>r \<in> set xs. list_all in_long r"
  shows "torch_tensor_long xs = Inr \<lparr>t2_rows = length xs, t2_cols = n, t2_data = xs\<rparr>"
proof (cases xs)
  case Nil with assms(1) show ?thesis by simp
next
  case (Cons r rest)
  from assms(2) Cons have "length r = n" "list_all (\<lambda>x. length x = length r) rest"
    by (simp_all add: list_all_iff)
  moreover from assms(3) have "list_all (list_all in_long) xs" by (simp add: list_all_iff)
  ultimately show ?thesis using Cons by (simp add: torch_tensor_long_def)
qed

lemma np_stack_Inr:
  assumes "np_stack ms = Inr t"
  shows "t3_data t = map cells ms" and "t3_batch t = length ms"
  using assms by (auto simp: np_stack_def split: list.splits if_splits)

lemma np_stack_same:
  assumes "ms \<noteq> []" and "\<forall>m \<in> set ms. nrows m = r \<and> ncols m = c"
  shows "np_stack ms = Inr \<lparr>t3_batch = length ms, t3_rows = r, t3_cols = c, t3_data = map cells ms\<rparr>"
proof (cases ms)
  case Nil with assms(1) show ?thesis by simp
next
  case (Cons m rest)
  from assms(2) Cons have "nrows m = r" "ncols m = c"
    "list_all (\<lambda>x. nrows x = nrows m \<and> ncols x = ncols m) rest"
    by (simp_all add: list_all_iff)
  then show ?thesis using Cons by (simp add: np_stack_def)
qed

subsection \<open>The whole call\<close>

text \<open>What a successful call returned, read off the code.\<close>

lemma collator_call_Inr:
  assumes ok: "collator_call lib self features = Inr b"
  shows "features \<noteq> []"
    and "t2_data (b_input_ids b) =
           map (\<lambda>f. input_ids f @
                  replicate (Max (length ` input_ids ` set features) - length (input_ids f))
                    (pad_token_id self)) features"
    and "t2_data (b_attention_mask b) =
           map (\<lambda>f. attention_mask f @
                  replicate (Max (length ` input_ids ` set features) - length (input_ids f)) 0)
               features"
    and "\<exists>ms. mel_loop lib (target_length self) (map labels features) [] = Inr ms \<and>
              t3_data (b_labels b) = map (map (map (float32 lib))) (map cells ms)"
proof -
  show ne: "features \<noteq> []"
    using ok by (auto simp: collator_call_def max_len_def)
  let ?M = "Max (length ` input_ids ` set features)"
  from ne have "max_len (map input_ids features) = Inr (Max (length ` set (map input_ids features)))"
    by (intro max_len_Max) simp
  then have ml: "max_len (map input_ids features) = Inr ?M" by (simp add: image_image)
  let ?P = "map (\<lambda>f. input_ids f @ replicate (?M - length (input_ids f)) (pad_token_id self)) features"
  let ?Q = "map (\<lambda>f. attention_mask f @ replicate (?M - length (input_ids f)) 0) features"
  have pl: "pad_loop (pad_token_id self) ?M
              (zip (map input_ids features) (map attention_mask features)) [] [] = (?P, ?Q)"
    by (simp add: pad_loop_eq map_zip_fields)
  from ok ml pl obtain t1 t2 ms st where
    t1: "torch_tensor_long ?P = Inr t1" and t2: "torch_tensor_long ?Q = Inr t2"
    and ms: "mel_loop lib (target_length self) (map labels features) [] = Inr ms"
    and st: "np_stack ms = Inr st"
    and b: "b = \<lparr>b_input_ids = t1, b_attention_mask = t2,
                 b_labels = torch_tensor_float32 lib st\<rparr>"
    by (auto simp: collator_call_def Let_def split: sum.splits)
  show "t2_data (b_input_ids b) = ?P" using b torch_tensor_long_Inr(1) [OF t1] by simp
  show "t2_data (b_attention_mask b) = ?Q" using b torch_tensor_long_Inr(1) [OF t2] by simp
  have "t3_data (b_labels b) = map (map (map (float32 lib))) (map cells ms)"
    using b np_stack_Inr(1) [OF st] by (simp add: torch_tensor_float32_def)
  with ms show "\<exists>ms. mel_loop lib (target_length self) (map labels features) [] = Inr ms \<and>
              t3_data (b_labels b) = map (map (map (float32 lib))) (map cells ms)"
    by blast
qed

text \<open>The call on a well-formed, non-empty batch, in closed form.\<close>

lemma collator_call_eq:
  assumes ne: "features \<noteq> []"
    and wf: "\<forall>f \<in> set features. wf_feature f"
    and pad: "in_long (pad_token_id self)"
    and lib: "librosa_shapes lib"
  shows "collator_call lib self features =
     Inr \<lparr>b_input_ids =
            \<lparr>t2_rows = length features, t2_cols = Max (length ` input_ids ` set features),
             t2_data = map (\<lambda>f. input_ids f @
                  replicate (Max (length ` input_ids ` set features) - length (input_ids f))
                    (pad_token_id self)) features\<rparr>,
          b_attention_mask =
            \<lparr>t2_rows = length features, t2_cols = Max (length ` input_ids ` set features),
             t2_data = map (\<lambda>f. attention_mask f @
                  replicate (Max (length ` input_ids ` set features) - length (input_ids f)) 0)
               features\<rparr>,
          b_labels =
            \<lparr>t3_batch = length features, t3_rows = target_length self, t3_cols = 80,
             t3_data = map (\<lambda>f. map (map (float32 lib))
                 (take (target_length self)
                    (cells (clip_spectrogram lib (fix_audio (target_length self) (labels f))))))
               features\<rparr>\<rparr>"
proof -
  let ?M = "Max (length ` input_ids ` set features)"
  let ?T = "target_length self"
  from ne have "max_len (map input_ids features) = Inr (Max (length ` set (map input_ids features)))"
    by (intro max_len_Max) simp
  then have ml: "max_len (map input_ids features) = Inr ?M" by (simp add: image_image)
  have le: "length (input_ids f) \<le> ?M" if "f \<in> set features" for f
    using that by (intro Max_ge) auto
  let ?P = "map (\<lambda>f. input_ids f @ replicate (?M - length (input_ids f)) (pad_token_id self)) features"
  let ?Q = "map (\<lambda>f. attention_mask f @ replicate (?M - length (input_ids f)) 0) features"
  have pl: "pad_loop (pad_token_id self) ?M
              (zip (map input_ids features) (map attention_mask features)) [] [] = (?P, ?Q)"
    by (simp add: pad_loop_eq map_zip_fields)
  have z: "in_long 0" by (simp add: in_long_def)
  have t1: "torch_tensor_long ?P = Inr \<lparr>t2_rows = length ?P, t2_cols = ?M, t2_data = ?P\<rparr>"
  proof (rule torch_tensor_long_rect)
    show "?P \<noteq> []" using ne by simp
    show "\<forall>r \<in> set ?P. length r = ?M" using le by auto
    show "\<forall>r \<in> set ?P. list_all in_long r"
      using wf pad by (auto simp: wf_feature_def list_all_iff)
  qed
  have t2: "torch_tensor_long ?Q = Inr \<lparr>t2_rows = length ?Q, t2_cols = ?M, t2_data = ?Q\<rparr>"
  proof (rule torch_tensor_long_rect)
    show "?Q \<noteq> []" using ne by simp
    show "\<forall>r \<in> set ?Q. length r = ?M" using le wf by (auto simp: wf_feature_def)
    show "\<forall>r \<in> set ?Q. list_all in_long r"
      using wf z by (auto simp: wf_feature_def list_all_iff)
  qed
  let ?S = "map (\<lambda>a. \<lparr>nrows = ?T, ncols = 80,
                  cells = take ?T (cells (clip_spectrogram lib (fix_audio ?T a)))\<rparr>)
              (map labels features)"
  have ms: "mel_loop lib ?T (map labels features) [] = Inr ?S"
    using mel_loop_shapes [OF lib, of ?T "map labels features" "[]"] by simp
  have st: "np_stack ?S = Inr \<lparr>t3_batch = length ?S, t3_rows = ?T, t3_cols = 80, t3_data = map cells ?S\<rparr>"
  proof (rule np_stack_same)
    show "?S \<noteq> []" using ne by simp
    show "\<forall>m \<in> set ?S. nrows m = ?T \<and> ncols m = 80" by auto
  qed
  have "collator_call lib self features =
          Inr \<lparr>b_input_ids = \<lparr>t2_rows = length ?P, t2_cols = ?M, t2_data = ?P\<rparr>,
               b_attention_mask = \<lparr>t2_rows = length ?Q, t2_cols = ?M, t2_data = ?Q\<rparr>,
               b_labels = torch_tensor_float32 lib
                 \<lparr>t3_batch = length ?S, t3_rows = ?T, t3_cols = 80, t3_data = map cells ?S\<rparr>\<rparr>"
    by (simp only: collator_call_def Let_def ml pl t1 t2 ms st sum.case prod.case)
  then show ?thesis
    by (simp add: torch_tensor_float32_def comp_def)
qed


lemma collator_call_clip:
  assumes ok: "collator_call lib self features = Inr b" and i: "i < length features"
  shows "\<exists>m. fix_frames (target_length self)
               (clip_spectrogram lib (fix_audio (target_length self) (labels (features ! i)))) = Inr m \<and>
             t3_data (b_labels b) ! i = map (map (float32 lib)) (cells m)"
proof -
  from collator_call_Inr(4) [OF ok] obtain ms where
    ms: "mel_loop lib (target_length self) (map labels features) [] = Inr ms"
    and d: "t3_data (b_labels b) = map (map (map (float32 lib))) (map cells ms)" by blast
  from mel_loop_Inr [OF ms] i have len: "length ms = length features"
    and at: "fix_frames (target_length self)
               (clip_spectrogram lib (fix_audio (target_length self) (labels (features ! i)))) =
             Inr (ms ! i)"
    by auto
  from d len i have "t3_data (b_labels b) ! i = map (map (float32 lib)) (cells (ms ! i))" by simp
  with at show ?thesis by blast
qed

lemma transpose_T_nth:
  assumes "wf_array m" and "fr < ncols m" and "k < nrows m"
  shows "cells (transpose_T m) ! fr ! k = cells m ! k ! fr"
  using assms by (simp add: transpose_T_def wf_array_def)

lemma demo_cell:
  assumes "k < 80" and "fr < 1 + length y div 512"
  shows "cells (power_to_db demo_lib r
           (melspectrogram demo_lib
              \<lparr>sr = 16000, n_mels = 80, n_fft = 2048, hop_length = 512, win_length = 2048,
               center = True, pad_mode = Reflect\<rparr> y)) ! k ! fr = real (1000 * k + fr) - 1"
  using assms by (simp add: demo_lib_def del: upt_rec_numeral upt_Suc)

lemma demo_lib_shapes: "librosa_shapes demo_lib"
  by (simp add: librosa_shapes_def demo_lib_def wf_array_def list_all_iff)

lemma demo_wf: "\<forall>f \<in> set demo_features. wf_feature f"
  by (simp add: demo_features_def wf_feature_def in_long_def)

lemma demo_pad: "in_long (pad_token_id demo_collator)"
  by (simp add: demo_collator_def in_long_def)

lemma demo_ne: "demo_features \<noteq> []"
  by (simp add: demo_features_def)

lemma demo_call_ok: "\<exists>b. collator_call demo_lib demo_collator demo_features = Inr b"
  using collator_call_eq [OF demo_ne demo_wf demo_pad demo_lib_shapes] by blast

section \<open>The claims\<close>

text \<open>
  Claim C1. For a non-empty batch of features as \<open>prepare_dataset\<close> builds them, with the
  default frame count 512, the collator returns a batch; its spectrogram tensor has shape
  (batch, 512, 80) and its two token tensors have shape (batch, max_len), where max_len is
  the largest length of \<open>input_ids\<close> in the batch. The nested data has these dimensions
  too.
\<close>

theorem collator_call_shape:
  assumes ne: "features \<noteq> []"
    and wf: "\<forall>f \<in> set features. wf_feature f"
    and pad: "in_long (pad_token_id self)"
    and lib: "librosa_shapes lib"
    and T: "target_length self = 512"
  shows "\<exists>b. collator_call lib self features = Inr b \<and>
     (t3_batch (b_labels b), t3_rows (b_labels b), t3_cols (b_labels b)) =
        (length features, 512, 80) \<and>
     (t2_rows (b_input_ids b), t2_cols (b_input_ids b)) =
        (length features, Max (length ` input_ids ` set features)) \<and>
     (t2_rows (b_attention_mask b), t2_cols (b_attention_mask b)) =
        (length features, Max (length ` input_ids ` set features)) \<and>
     length (t3_data (b_labels b)) = length features \<and>
     (\<forall>clip \<in> set (t3_data (b_labels b)).
        length clip = 512 \<and> (\<forall>row \<in> set clip. length row = 80)) \<and>
     length (t2_data (b_input_ids b)) = length features \<and>
     (\<forall>row \<in> set (t2_data (b_input_ids b)).
        length row = Max (length ` input_ids ` set features)) \<and>
     length (t2_data (b_attention_mask b)) = length features \<and>
     (\<forall>row \<in> set (t2_data (b_attention_mask b)).
        length row = Max (length ` input_ids ` set features))"
proof -
  let ?M = "Max (length ` input_ids ` set features)"
  note eq = collator_call_eq [OF ne wf pad lib]
  have le: "length (input_ids f) \<le> ?M" if "f \<in> set features" for f
    using that by (intro Max_ge) auto
  have clip: "length (take 512 (cells (clip_spectrogram lib (fix_audio 512 a)))) = 512 \<and>
      (\<forall>row \<in> set (take 512 (cells (clip_spectrogram lib (fix_audio 512 a)))). length row = 80)"
    for a
  proof -
    let ?c = "clip_spectrogram lib (fix_audio 512 a)"
    have n: "nrows ?c = 513" and k: "ncols ?c = 80" and w: "wf_array ?c"
      by (simp_all add: clip_spectrogram_shape [OF lib] fix_audio_length)
    from w n have "length (cells ?c) = 513" by (simp add: wf_array_def)
    then have a: "length (take 512 (cells ?c)) = 512" by simp
    from w k have "\<forall>row \<in> set (cells ?c). length row = 80"
      by (simp add: wf_array_def list_all_iff)
    then have "\<forall>row \<in> set (take 512 (cells ?c)). length row = 80"
      by (auto dest: in_set_takeD)
    with a show ?thesis by blast
  qed
  have ids: "\<forall>f \<in> set features.
      length (input_ids f @ replicate (?M - length (input_ids f)) (pad_token_id self)) = ?M"
    using le by simp
  have msk: "\<forall>f \<in> set features.
      length (attention_mask f @ replicate (?M - length (input_ids f)) (0::int)) = ?M"
    using le wf by (simp add: wf_feature_def)
  show ?thesis
    unfolding eq T using clip ids msk by simp
qed

theorem collator_call_shape_witness:
  "\<exists>b. collator_call demo_lib demo_collator demo_features = Inr b \<and>
     (t3_batch (b_labels b), t3_rows (b_labels b), t3_cols (b_labels b)) = (2, 512, 80) \<and>
     (t2_rows (b_input_ids b), t2_cols (b_input_ids b)) = (2, 3) \<and>
     (t2_rows (b_attention_mask b), t2_cols (b_attention_mask b)) = (2, 3)"
proof -
  have T: "target_length demo_collator = 512" by (simp add: demo_collator_def)
  have M: "Max (length ` input_ids ` set demo_features) = 3" by (simp add: demo_features_def)
  have n: "length demo_features = 2" by (simp add: demo_features_def)
  from collator_call_shape [OF demo_ne demo_wf demo_pad demo_lib_shapes T]
  show ?thesis unfolding M n by blast
qed


text \<open>
  Claim C2. With the default frame count 512, the waveform of every clip of a batch is cut
  to its first 262144 samples when it is longer, and zero-padded at the end when it is not,
  before the spectrogram is computed: the spectrogram of clip \<open>i\<close> in the returned tensor
  is computed from that waveform of exactly 512 * 512 = 262144 samples.
\<close>

theorem collator_waveform_length:
  assumes ok: "collator_call lib self features = Inr b"
    and T: "target_length self = 512"
    and i: "i < length features"
  shows "\<exists>w m. w = fix_audio 512 (labels (features ! i)) \<and>
           length w = 262144 \<and>
           (length (labels (features ! i)) > 262144 \<longrightarrow>
              w = take 262144 (labels (features ! i))) \<and>
           (length (labels (features ! i)) \<le> 262144 \<longrightarrow>
              w = labels (features ! i) @
                  replicate (262144 - length (labels (features ! i))) 0) \<and>
           fix_frames 512 (clip_spectrogram lib w) = Inr m \<and>
           t3_data (b_labels b) ! i = map (map (float32 lib)) (cells m)"
proof -
  let ?a = "labels (features ! i)"
  from collator_call_clip [OF ok i] T obtain m where
    m: "fix_frames 512 (clip_spectrogram lib (fix_audio 512 ?a)) = Inr m"
       "t3_data (b_labels b) ! i = map (map (float32 lib)) (cells m)"
    by auto
  have l: "length (fix_audio 512 ?a) = 262144" by (simp add: fix_audio_length)
  have c: "length ?a > 262144 \<longrightarrow> fix_audio 512 ?a = take 262144 ?a"
    by (simp add: fix_audio_def)
  have p: "length ?a \<le> 262144 \<longrightarrow> fix_audio 512 ?a = ?a @ replicate (262144 - length ?a) 0"
    by (simp add: fix_audio_def)
  from m l c p show ?thesis by blast
qed

theorem collator_waveform_length_witness:
  "\<exists>b w m. collator_call demo_lib demo_collator demo_features = Inr b \<and>
      w = [1 / 2, - (1 / 4)] @ replicate 262142 0 \<and> length w = 262144 \<and>
      fix_frames 512 (clip_spectrogram demo_lib w) = Inr m \<and>
      t3_data (b_labels b) ! 0 = map (map (float32 demo_lib)) (cells m)"
proof -
  from demo_call_ok obtain b where b: "collator_call demo_lib demo_collator demo_features = Inr b"
    by blast
  have T: "target_length demo_collator = 512" by (simp add: demo_collator_def)
  have i: "0 < length demo_features" by (simp add: demo_features_def)
  have a: "labels (demo_features ! 0) = [1 / 2, - (1 / 4)]" by (simp add: demo_features_def)
  from collator_waveform_length [OF b T i] b show ?thesis
    unfolding a by auto
qed

text \<open>
  Claim C3. The spectrogram of every clip is computed in this order: the mel spectrogram
  with sample rate 16000, 80 mel bands, FFT size 2048, hop length 512, window length 2048,
  centered framing and reflect padding; then the conversion to decibels with the maximum of
  that clip's own spectrogram as reference; then the transposition, after which the cell
  of frame \<open>fr\<close> and mel band \<open>k\<close> is the cell of mel band \<open>k\<close> and frame \<open>fr\<close> of the
  decibel spectrogram, one row per frame. The frame adjustment and the conversion to
  \<open>float32\<close> follow: for a library with the documented shapes, entry \<open>(i, fr, k)\<close> of the
  returned tensor is the \<open>float32\<close> of the decibel value of mel band \<open>k\<close> at frame \<open>fr\<close>
  of clip \<open>i\<close>.
\<close>

theorem collator_spectrogram_pipeline:
  assumes ok: "collator_call lib self features = Inr b" and i: "i < length features"
  shows "\<exists>y S D m.
      y = fix_audio (target_length self) (labels (features ! i)) \<and>
      S = melspectrogram lib
            \<lparr>sr = 16000, n_mels = 80, n_fft = 2048, hop_length = 512, win_length = 2048,
             center = True, pad_mode = Reflect\<rparr> y \<and>
      D = power_to_db lib RefMax S \<and>
      fix_frames (target_length self) (transpose_T D) = Inr m \<and>
      t3_data (b_labels b) ! i = map (map (float32 lib)) (cells m) \<and>
      nrows (transpose_T D) = ncols D \<and> ncols (transpose_T D) = nrows D \<and>
      (wf_array D \<longrightarrow>
         (\<forall>fr < ncols D. \<forall>k < nrows D. cells (transpose_T D) ! fr ! k = cells D ! k ! fr)) \<and>
      (librosa_shapes lib \<longrightarrow>
         nrows (transpose_T D) = 1 + length y div 512 \<and> ncols (transpose_T D) = 80 \<and>
         (\<forall>fr < target_length self. \<forall>k < 80.
            t3_data (b_labels b) ! i ! fr ! k = float32 lib (cells D ! k ! fr)))"
proof -
  let ?T = "target_length self"
  let ?y = "fix_audio ?T (labels (features ! i))"
  let ?S = "melspectrogram lib
            \<lparr>sr = 16000, n_mels = 80, n_fft = 2048, hop_length = 512, win_length = 2048,
             center = True, pad_mode = Reflect\<rparr> ?y"
  let ?D = "power_to_db lib RefMax ?S"
  have c: "clip_spectrogram lib ?y = transpose_T ?D"
    by (simp add: clip_spectrogram_def collator_mel_params_def)
  from collator_call_clip [OF ok i] obtain m where
    m: "fix_frames ?T (transpose_T ?D) = Inr m"
       "t3_data (b_labels b) ! i = map (map (float32 lib)) (cells m)"
    unfolding c by blast
  have t: "nrows (transpose_T ?D) = ncols ?D" "ncols (transpose_T ?D) = nrows ?D"
    by (simp_all add: transpose_T_def)
  have x: "wf_array ?D \<longrightarrow>
         (\<forall>fr < ncols ?D. \<forall>k < nrows ?D. cells (transpose_T ?D) ! fr ! k = cells ?D ! k ! fr)"
    by (simp add: transpose_T_nth)
  have s: "librosa_shapes lib \<longrightarrow>
         nrows (transpose_T ?D) = 1 + length ?y div 512 \<and> ncols (transpose_T ?D) = 80"
    using clip_spectrogram_shape(1,2) [of lib ?y] unfolding c by blast
  have e: "librosa_shapes lib \<longrightarrow>
         (\<forall>fr < ?T. \<forall>k < 80.
            t3_data (b_labels b) ! i ! fr ! k = float32 lib (cells ?D ! k ! fr))"
  proof (intro impI allI)
    fix fr k :: nat
    assume lib: "librosa_shapes lib" and fr: "fr < ?T" and k: "k < 80"
    from lib have S: "wf_array ?S" "nrows ?S = 80" "ncols ?S = 1 + length ?y div 512"
      by (simp_all add: librosa_shapes_def)
    from lib S have D: "wf_array ?D" "nrows ?D = 80" "ncols ?D = 1 + ?T"
      by (simp_all add: librosa_shapes_def fix_audio_length)
    have wc: "wf_array (transpose_T ?D)" by (rule wf_transpose_T) (rule D(1))
    have nc: "nrows (transpose_T ?D) = 1 + ?T" "ncols (transpose_T ?D) = 80"
      by (simp_all add: t D)
    from wc nc have len: "length (cells (transpose_T ?D)) = 1 + ?T"
      by (simp add: wf_array_def)
    from fix_frames_cells [OF wc nc(2), of ?T] m(1)
    have cm: "cells m = take ?T (cells (transpose_T ?D))"
      by (simp add: nc)
    have row: "t3_data (b_labels b) ! i ! fr = map (float32 lib) (cells (transpose_T ?D) ! fr)"
      using m(2) cm fr len by simp
    from fr len have "cells (transpose_T ?D) ! fr \<in> set (cells (transpose_T ?D))" by simp
    with wc nc(2) have rl: "length (cells (transpose_T ?D) ! fr) = 80"
      by (simp add: wf_array_def list_all_iff)
    from row rl k have "t3_data (b_labels b) ! i ! fr ! k =
        float32 lib (cells (transpose_T ?D) ! fr ! k)" by simp
    also have "cells (transpose_T ?D) ! fr ! k = cells ?D ! k ! fr"
      using D fr k by (intro transpose_T_nth) simp_all
    finally show "t3_data (b_labels b) ! i ! fr ! k = float32 lib (cells ?D ! k ! fr)" .
  qed
  from m t x s e show ?thesis by blast
qed

theorem collator_spectrogram_pipeline_witness:
  "\<exists>b D m. collator_call demo_lib demo_collator demo_features = Inr b \<and>
      D = power_to_db demo_lib RefMax
            (melspectrogram demo_lib
               \<lparr>sr = 16000, n_mels = 80, n_fft = 2048, hop_length = 512, win_length = 2048,
                center = True, pad_mode = Reflect\<rparr>
               (fix_audio 512 [])) \<and>
      fix_frames 512 (transpose_T D) = Inr m \<and>
      t3_data (b_labels b) ! 1 = map (map (float32 demo_lib)) (cells m) \<and>
      nrows (transpose_T D) = 513 \<and> ncols (transpose_T D) = 80 \<and>
      cells D ! 3 ! 2 = 3001 \<and>
      t3_data (b_labels b) ! 1 ! 2 ! 3 = 3001"
proof -
  from demo_call_ok obtain b where b: "collator_call demo_lib demo_collator demo_features = Inr b"
    by blast
  have T: "target_length demo_collator = 512" by (simp add: demo_collator_def)
  have i: "1 < length demo_features" by (simp add: demo_features_def)
  have a: "labels (demo_features ! 1) = []" by (simp add: demo_features_def)
  have l: "length (fix_audio 512 []) = 262144" by (simp add: fix_audio_length)
  let ?D = "power_to_db demo_lib RefMax
            (melspectrogram demo_lib
               \<lparr>sr = 16000, n_mels = 80, n_fft = 2048, hop_length = 512, win_length = 2048,
                center = True, pad_mode = Reflect\<rparr>
               (fix_audio 512 []))"
  from collator_spectrogram_pipeline [OF b i, unfolded a T] obtain m where
    m: "fix_frames 512 (transpose_T ?D) = Inr m"
       "t3_data (b_labels b) ! 1 = map (map (float32 demo_lib)) (cells m)"
    and sh: "librosa_shapes demo_lib \<longrightarrow>
       nrows (transpose_T ?D) = 1 + length (fix_audio 512 []) div 512 \<and>
       ncols (transpose_T ?D) = 80 \<and>
       (\<forall>fr < 512. \<forall>k < 80.
          t3_data (b_labels b) ! 1 ! fr ! k = float32 demo_lib (cells ?D ! k ! fr))"
    by blast
  from sh demo_lib_shapes have n: "nrows (transpose_T ?D) = 513" "ncols (transpose_T ?D) = 80"
    by (simp_all add: l)
  from sh demo_lib_shapes have al: "\<forall>fr < 512. \<forall>k < 80.
          t3_data (b_labels b) ! 1 ! fr ! k = float32 demo_lib (cells ?D ! k ! fr)"
    by blast
  have lt: "(2::nat) < 512" "(3::nat) < 80" by simp_all
  from al lt have v: "t3_data (b_labels b) ! 1 ! 2 ! 3 = float32 demo_lib (cells ?D ! 3 ! 2)"
    by blast
  have d: "cells ?D ! 3 ! 2 = 3001"
    using demo_cell [of 3 2 "fix_audio 512 []" RefMax] by (simp add: l)
  have f: "float32 demo_lib 3001 = 3001" by (simp add: demo_lib_def)
  from v d f have "t3_data (b_labels b) ! 1 ! 2 ! 3 = 3001" by simp
  with b m n d show ?thesis by blast
qed

text \<open>
  Claim C4. A time-major spectrogram (rows of 80 cells) is brought to exactly 512 frames:
  its first 512 rows when it has more, its rows followed by all-zero rows when it has
  fewer, itself when it has 512.
\<close>

theorem fix_frames_exact:
  assumes wf: "wf_array m" and k: "ncols m = 80"
  shows "\<exists>m'. fix_frames 512 m = Inr m' \<and>
      nrows m' = 512 \<and> ncols m' = 80 \<and> length (cells m') = 512 \<and>
      (nrows m > 512 \<longrightarrow> cells m' = take 512 (cells m)) \<and>
      (nrows m < 512 \<longrightarrow>
         cells m' = cells m @ replicate (512 - nrows m) (replicate 80 0)) \<and>
      (nrows m = 512 \<longrightarrow> m' = m)"
proof -
  from wf have len: "length (cells m) = nrows m" by (simp add: wf_array_def)
  consider "nrows m > 512" | "nrows m < 512" | "nrows m = 512" by linarith
  then show ?thesis
  proof cases
    case 1
    then show ?thesis using k len by (simp add: fix_frames_def slice_rows_def)
  next
    case 2
    then show ?thesis using k len
      by (simp add: fix_frames_def np_concatenate0_def np_zeros_def)
  next
    case 3
    then show ?thesis using k len by (simp add: fix_frames_def)
  qed
qed

theorem fix_frames_exact_witness:
  "\<exists>m'. fix_frames 512 demo_spec = Inr m' \<and> nrows m' = 512 \<and> ncols m' = 80 \<and>
      length (cells m') = 512 \<and>
      cells m' = replicate 2 (replicate 80 1) @ replicate 510 (replicate 80 0)"
proof -
  have wf: "wf_array demo_spec" by (simp add: demo_spec_def wf_array_def list_all_iff)
  have k: "ncols demo_spec = 80" by (simp add: demo_spec_def)
  have n: "nrows demo_spec = 2" "cells demo_spec = replicate 2 (replicate 80 1)"
    by (simp_all add: demo_spec_def)
  from fix_frames_exact [OF wf k] show ?thesis unfolding n by auto
qed






section \<open>Loading the dataset\<close>

lemma prepare_loop_append:
  "prepare_loop w d (xs @ ys) acc = prepare_loop w d ys (prepare_loop w d xs acc)"
  by (induction w d xs acc rule: prepare_loop.induct)
     (simp_all add: Let_def split: option.splits prod.splits)

lemma prepare_loop_length:
  "length (prepare_loop w d df acc) = length acc + length (filter (loads w d) df)"
  by (induction w d df acc rule: prepare_loop.induct)
     (auto simp: loads_def Let_def split: option.splits prod.splits)

lemma prepare_loop_items:
  "prepare_loop w d df acc =
     acc @ concat (map (\<lambda>(j, r).
        case load_audio w (audio_path r) d 10 of
          None \<Rightarrow> []
        | Some audio \<Rightarrow>
            [\<lparr>input_ids = fst (processor w (text_col r) 256),
              attention_mask = snd (processor w (text_col r) 256),
              labels = audio, item_text = text_col r\<rparr>]) df)"
  by (induction w d df acc rule: prepare_loop.induct)
     (simp_all add: Let_def split: option.splits prod.splits)

lemma tiny_pos: "0 < tiny"
  by (simp add: tiny_def)

lemma fold_max_scale:
  assumes c: "0 < (c::real)"
  shows "fold max (map (\<lambda>x. \<bar>x / c\<bar>) xs) (a / c) = fold max (map abs xs) a / c"
proof (induction xs arbitrary: a)
  case Nil
  show ?case by simp
next
  case (Cons x xs)
  have "max \<bar>x / c\<bar> (a / c) = max \<bar>x\<bar> a / c"
    using c by (simp add: max_def divide_le_cancel)
  then show ?case using Cons.IH [of "max \<bar>x\<bar> a"] by simp
qed

lemma peak_scaled:
  assumes "0 < peak S"
  shows "peak (map (\<lambda>x. x / peak S) S) = 1"
proof -
  have "peak (map (\<lambda>x. x / peak S) S) = fold max (map (\<lambda>x. \<bar>x / peak S\<bar>) S) (0 / peak S)"
    by (simp add: peak_def comp_def)
  also have "\<dots> = fold max (map abs S) 0 / peak S"
    by (rule fold_max_scale [OF assms])
  also have "\<dots> = 1" using assms by (simp add: peak_def)
  finally show ?thesis .
qed

lemma util_normalize_cases:
  "(tiny \<le> peak S \<longrightarrow>
      util_normalize S = map (\<lambda>x. x / peak S) S \<and> peak (util_normalize S) = 1) \<and>
   (peak S < tiny \<longrightarrow> util_normalize S = S)"
proof -
  have "peak (map (\<lambda>x. x / peak S) S) = 1" if "tiny \<le> peak S"
    using that tiny_pos by (intro peak_scaled) simp
  then show ?thesis by (simp add: util_normalize_def Let_def)
qed

lemma filter_loads_empty:
  "filter (loads w d) df = [] \<longleftrightarrow> (\<forall>r \<in> set df. \<not> loads w d r)"
  by (simp add: filter_empty_conv)

text \<open>
  Claim C10. \<open>prepare_dataset\<close> raises \<open>ValueError\<close> exactly when the audio of no row
  loads (in particular on an empty dataframe); otherwise it returns a dataset with as many
  items as there are rows whose audio loaded. It raises nothing else.
\<close>

theorem prepare_dataset_result:
  "(prepare_dataset w df d = Inl ValueError \<longleftrightarrow>
      (\<forall>r \<in> set df. load_audio w (audio_path (snd r)) d 10 = None)) \<and>
   ((\<exists>r \<in> set df. load_audio w (audio_path (snd r)) d 10 \<noteq> None) \<longrightarrow>
      (\<exists>ds. prepare_dataset w df d = Inr ds \<and>
            dataset_len ds =
              length (filter (\<lambda>r. load_audio w (audio_path (snd r)) d 10 \<noteq> None) df))) \<and>
   (\<forall>e. prepare_dataset w df d = Inl e \<longrightarrow> e = ValueError) \<and>
   prepare_dataset w [] d = Inl ValueError"
proof -
  let ?p = "prepare_loop w d df []"
  have len: "length ?p = length (filter (loads w d) df)"
    by (simp add: prepare_loop_length)
  have f: "filter (loads w d) df =
           filter (\<lambda>r. load_audio w (audio_path (snd r)) d 10 \<noteq> None) df"
    by (simp add: loads_def [abs_def])
  have e: "?p = [] \<longleftrightarrow> (\<forall>r \<in> set df. load_audio w (audio_path (snd r)) d 10 = None)"
  proof -
    have "?p = [] \<longleftrightarrow> length ?p = 0" by simp
    also have "\<dots> \<longleftrightarrow> filter (loads w d) df = []" by (simp add: len)
    also have "\<dots> \<longleftrightarrow> (\<forall>r \<in> set df. \<not> loads w d r)" by (rule filter_loads_empty)
    finally show ?thesis by (simp add: loads_def)
  qed
  have a: "prepare_dataset w df d = Inl ValueError \<longleftrightarrow>
      (\<forall>r \<in> set df. load_audio w (audio_path (snd r)) d 10 = None)"
    using e by (simp add: prepare_dataset_def Let_def)
  have b: "(\<exists>r \<in> set df. load_audio w (audio_path (snd r)) d 10 \<noteq> None) \<longrightarrow>
      (\<exists>ds. prepare_dataset w df d = Inr ds \<and>
            dataset_len ds =
              length (filter (\<lambda>r. load_audio w (audio_path (snd r)) d 10 \<noteq> None) df))"
    using e len f by (auto simp: prepare_dataset_def Let_def)
  have c: "\<forall>e. prepare_dataset w df d = Inl e \<longrightarrow> e = ValueError"
    by (auto simp: prepare_dataset_def Let_def split: if_splits)
  have n: "prepare_dataset w [] d = Inl ValueError"
    by (simp add: prepare_dataset_def)
  from a b c n show ?thesis by blast
qed


lemma demo_paths:
  "path_join ''dataset'' ''wavs/a.wav'' = ''dataset/wavs/a.wav''"
  "path_join ''dataset'' ''wavs/bad.wav'' = ''dataset/wavs/bad.wav''"
  "path_join ''dataset'' ''wavs/empty.wav'' = ''dataset/wavs/empty.wav''"
  "path_join ''dataset'' ''wavs/missing.wav'' = ''dataset/wavs/missing.wav''"
  "path_join ''dataset'' ''wavs/silent.wav'' = ''dataset/wavs/silent.wav''"
  by (simp_all add: path_join_def)

lemma demo_world_files:
  "\<not> path_exists demo_world ''dataset/wavs/missing.wav''"
  "path_exists demo_world ''dataset/wavs/a.wav''"
  "path_exists demo_world ''dataset/wavs/bad.wav''"
  "path_exists demo_world ''dataset/wavs/empty.wav''"
  "librosa_load demo_world ''dataset/wavs/bad.wav'' 16000 10 = Inl IOError"
  "librosa_load demo_world ''dataset/wavs/empty.wav'' 16000 10 = Inr []"
  "librosa_load demo_world ''dataset/wavs/a.wav'' 16000 10 = Inr [1 / 2, - (1 / 4)]"
  "path_exists demo_world ''dataset/wavs/silent.wav''"
  "librosa_load demo_world ''dataset/wavs/silent.wav'' 16000 10 = Inr [0, 0]"
  by (simp_all add: demo_world_def)

lemma demo_peaks:
  "peak [1 / 2, - (1 / 4)] = 1 / 2"
  "peak [1, - (1 / 2)] = 1"
  "peak [0, 0] = 0"
  by (simp_all add: peak_def)

lemma demo_normalize:
  "util_normalize [1 / 2, - (1 / 4)] = [1, - (1 / 2)]"
  "util_normalize [0, 0] = [0, 0]"
  by (simp_all add: util_normalize_def demo_peaks tiny_def Let_def)

theorem prepare_dataset_result_witness:
  "(\<exists>ds. prepare_dataset demo_world demo_df ''dataset'' = Inr ds \<and> dataset_len ds = 1) \<and>
   prepare_dataset demo_world (take 1 demo_df) ''dataset'' = Inl ValueError"
proof -
  have m: "load_audio demo_world ''wavs/missing.wav'' ''dataset'' 10 = None"
    by (simp add: load_audio_def Let_def demo_paths demo_world_files demo_normalize)
  have a: "load_audio demo_world ''wavs/a.wav'' ''dataset'' 10 = Some [1, - (1 / 2)]"
    by (simp add: load_audio_def Let_def demo_paths demo_world_files demo_normalize)
  have b: "load_audio demo_world ''wavs/bad.wav'' ''dataset'' 10 = None"
    by (simp add: load_audio_def Let_def demo_paths demo_world_files demo_normalize)
  have ex: "\<exists>r \<in> set demo_df. load_audio demo_world (audio_path (snd r)) ''dataset'' 10 \<noteq> None"
    by (simp add: demo_df_def a)
  have n: "length (filter (\<lambda>r. load_audio demo_world (audio_path (snd r)) ''dataset'' 10 \<noteq> None)
             demo_df) = 1"
    by (simp add: demo_df_def m a b)
  have al: "\<forall>r \<in> set (take 1 demo_df).
      load_audio demo_world (audio_path (snd r)) ''dataset'' 10 = None"
    by (simp add: demo_df_def m)
  from prepare_dataset_result [of demo_world demo_df "''dataset''"] ex n
  have one: "\<exists>ds. prepare_dataset demo_world demo_df ''dataset'' = Inr ds \<and> dataset_len ds = 1"
    by auto
  from prepare_dataset_result [of demo_world "take 1 demo_df" "''dataset''"] al
  have two: "prepare_dataset demo_world (take 1 demo_df) ''dataset'' = Inl ValueError"
    by blast
  from one two show ?thesis by blast
qed

text \<open>
  Claim C7, as the code has it. \<open>load_audio\<close> returns \<open>None\<close> exactly when the joined
  path does not exist, or loading it raises, or the loaded waveform is empty. In every
  other case it returns the loaded waveform as \<open>librosa.util.normalize\<close> leaves it:
  divided by its peak absolute amplitude, so that the peak is 1, when that peak is not
  below the threshold, and unchanged when it is (a silent clip stays silent). A row for
  which \<open>load_audio\<close> returns \<open>None\<close> is skipped: \<open>prepare_dataset\<close> gives what it gives
  on the dataframe without that row, and when some other row loads it returns the dataset
  of the items of the remaining rows, in order. When no row loads the run is aborted.
\<close>

theorem load_audio_none_iff:
  "(load_audio w file_path dataset_dir max_duration = None \<longleftrightarrow>
      \<not> path_exists w (path_join dataset_dir file_path) \<or>
      (\<exists>e. librosa_load w (path_join dataset_dir file_path) 16000 max_duration = Inl e) \<or>
      librosa_load w (path_join dataset_dir file_path) 16000 max_duration = Inr []) \<and>
   (\<forall>a. path_exists w (path_join dataset_dir file_path) \<and>
        librosa_load w (path_join dataset_dir file_path) 16000 max_duration = Inr a \<and> a \<noteq> [] \<longrightarrow>
        load_audio w file_path dataset_dir max_duration = Some (util_normalize a) \<and>
        (tiny \<le> peak a \<longrightarrow>
           util_normalize a = map (\<lambda>x. x / peak a) a \<and> peak (util_normalize a) = 1) \<and>
        (peak a < tiny \<longrightarrow> util_normalize a = a)) \<and>
   (load_audio w (audio_path row) dataset_dir 10 = None \<longrightarrow>
      prepare_dataset w (before @ (idx, row) # after) dataset_dir =
        prepare_dataset w (before @ after) dataset_dir \<and>
      ((\<exists>r \<in> set (before @ after). load_audio w (audio_path (snd r)) dataset_dir 10 \<noteq> None) \<longrightarrow>
         prepare_dataset w (before @ (idx, row) # after) dataset_dir =
           Inr (Dataset (concat (map (\<lambda>(j, r).
             case load_audio w (audio_path r) dataset_dir 10 of
               None \<Rightarrow> []
             | Some audio \<Rightarrow>
                 [\<lparr>input_ids = fst (processor w (text_col r) 256),
                   attention_mask = snd (processor w (text_col r) 256),
                   labels = audio, item_text = text_col r\<rparr>]) (before @ after))))) \<and>
      ((\<forall>r \<in> set (before @ after). load_audio w (audio_path (snd r)) dataset_dir 10 = None) \<longrightarrow>
         prepare_dataset w (before @ (idx, row) # after) dataset_dir = Inl ValueError))"
proof -
  let ?p = "path_join dataset_dir file_path"
  let ?F = "\<lambda>(j, r).
             case load_audio w (audio_path r) dataset_dir 10 of
               None \<Rightarrow> []
             | Some audio \<Rightarrow>
                 [\<lparr>input_ids = fst (processor w (text_col r) 256),
                   attention_mask = snd (processor w (text_col r) 256),
                   labels = audio, item_text = text_col r\<rparr>]"
  have a: "load_audio w file_path dataset_dir max_duration = None \<longleftrightarrow>
      \<not> path_exists w ?p \<or> (\<exists>e. librosa_load w ?p 16000 max_duration = Inl e) \<or>
      librosa_load w ?p 16000 max_duration = Inr []"
    by (cases "librosa_load w ?p 16000 max_duration") (auto simp: load_audio_def Let_def)
  have b: "\<forall>a. path_exists w ?p \<and> librosa_load w ?p 16000 max_duration = Inr a \<and> a \<noteq> [] \<longrightarrow>
        load_audio w file_path dataset_dir max_duration = Some (util_normalize a) \<and>
        (tiny \<le> peak a \<longrightarrow>
           util_normalize a = map (\<lambda>x. x / peak a) a \<and> peak (util_normalize a) = 1) \<and>
        (peak a < tiny \<longrightarrow> util_normalize a = a)"
  proof (intro allI impI)
    fix a
    assume h: "path_exists w ?p \<and> librosa_load w ?p 16000 max_duration = Inr a \<and> a \<noteq> []"
    then have "load_audio w file_path dataset_dir max_duration = Some (util_normalize a)"
      by (simp add: load_audio_def Let_def)
    with util_normalize_cases [of a]
    show "load_audio w file_path dataset_dir max_duration = Some (util_normalize a) \<and>
        (tiny \<le> peak a \<longrightarrow>
           util_normalize a = map (\<lambda>x. x / peak a) a \<and> peak (util_normalize a) = 1) \<and>
        (peak a < tiny \<longrightarrow> util_normalize a = a)"
      by blast
  qed
  have c: "prepare_dataset w (before @ (idx, row) # after) dataset_dir =
        prepare_dataset w (before @ after) dataset_dir"
    if "load_audio w (audio_path row) dataset_dir 10 = None"
    using that by (simp add: prepare_dataset_def prepare_loop_append)
  have ne: "concat (map ?F df) \<noteq> []"
    if "\<exists>r \<in> set df. load_audio w (audio_path (snd r)) dataset_dir 10 \<noteq> None" for df
    using that by (induction df) (auto split: option.splits)
  have d: "prepare_dataset w (before @ after) dataset_dir =
           Inr (Dataset (concat (map ?F (before @ after))))"
    if "\<exists>r \<in> set (before @ after). load_audio w (audio_path (snd r)) dataset_dir 10 \<noteq> None"
    using ne [OF that] by (simp add: prepare_dataset_def prepare_loop_items Let_def)
  have e: "prepare_dataset w (before @ after) dataset_dir = Inl ValueError"
    if "\<forall>r \<in> set (before @ after). load_audio w (audio_path (snd r)) dataset_dir 10 = None"
  proof -
    have "length (prepare_loop w dataset_dir (before @ after) []) =
          length (filter (loads w dataset_dir) (before @ after))"
      by (simp add: prepare_loop_length)
    also have "\<dots> = 0" using that by (simp add: loads_def filter_empty_conv)
    finally show ?thesis by (simp add: prepare_dataset_def)
  qed
  have f: "load_audio w (audio_path row) dataset_dir 10 = None \<longrightarrow>
      prepare_dataset w (before @ (idx, row) # after) dataset_dir =
        prepare_dataset w (before @ after) dataset_dir \<and>
      ((\<exists>r \<in> set (before @ after). load_audio w (audio_path (snd r)) dataset_dir 10 \<noteq> None) \<longrightarrow>
         prepare_dataset w (before @ (idx, row) # after) dataset_dir =
           Inr (Dataset (concat (map ?F (before @ after))))) \<and>
      ((\<forall>r \<in> set (before @ after). load_audio w (audio_path (snd r)) dataset_dir 10 = None) \<longrightarrow>
         prepare_dataset w (before @ (idx, row) # after) dataset_dir = Inl ValueError)"
  proof (intro impI conjI)
    assume n: "load_audio w (audio_path row) dataset_dir 10 = None"
    show "prepare_dataset w (before @ (idx, row) # after) dataset_dir =
        prepare_dataset w (before @ after) dataset_dir"
      by (rule c [OF n])
  next
    assume n: "load_audio w (audio_path row) dataset_dir 10 = None"
      and ex: "\<exists>r \<in> set (before @ after). load_audio w (audio_path (snd r)) dataset_dir 10 \<noteq> None"
    show "prepare_dataset w (before @ (idx, row) # after) dataset_dir =
           Inr (Dataset (concat (map ?F (before @ after))))"
      using c [OF n] d [OF ex] by (rule trans)
  next
    assume n: "load_audio w (audio_path row) dataset_dir 10 = None"
      and al: "\<forall>r \<in> set (before @ after). load_audio w (audio_path (snd r)) dataset_dir 10 = None"
    show "prepare_dataset w (before @ (idx, row) # after) dataset_dir = Inl ValueError"
      using c [OF n] e [OF al] by (rule trans)
  qed
  show ?thesis by (rule conjI [OF a conjI [OF b f]])
qed

theorem load_audio_none_iff_witness:
  "load_audio demo_world ''wavs/missing.wav'' ''dataset'' 10 = None \<and>
   load_audio demo_world ''wavs/bad.wav'' ''dataset'' 10 = None \<and>
   load_audio demo_world ''wavs/empty.wav'' ''dataset'' 10 = None \<and>
   load_audio demo_world ''wavs/a.wav'' ''dataset'' 10 = Some [1, - (1 / 2)] \<and>
   peak [1, - (1 / 2)] = 1 \<and>
   load_audio demo_world ''wavs/silent.wav'' ''dataset'' 10 = Some [0, 0] \<and>
   prepare_dataset demo_world demo_df ''dataset'' =
     prepare_dataset demo_world (tl demo_df) ''dataset'' \<and>
   prepare_dataset demo_world demo_df ''dataset'' =
     Inr (Dataset [\<lparr>input_ids = [7, 7], attention_mask = [1, 1], labels = [1, - (1 / 2)],
                    item_text = ''hi''\<rparr>])"
proof -
  note t = load_audio_none_iff [where w = demo_world and dataset_dir = "''dataset''"
             and max_duration = 10]
  have m: "load_audio demo_world ''wavs/missing.wav'' ''dataset'' 10 = None"
    using t [of "''wavs/missing.wav''"] by (simp add: demo_paths demo_world_files)
  have b: "load_audio demo_world ''wavs/bad.wav'' ''dataset'' 10 = None"
    using t [of "''wavs/bad.wav''"] by (simp add: demo_paths demo_world_files)
  have e: "load_audio demo_world ''wavs/empty.wav'' ''dataset'' 10 = None"
    using t [of "''wavs/empty.wav''"] by (simp add: demo_paths demo_world_files)
  have a: "load_audio demo_world ''wavs/a.wav'' ''dataset'' 10 = Some [1, - (1 / 2)]"
    using t [of "''wavs/a.wav''"]
    by (simp add: demo_paths demo_world_files demo_normalize)
  have z: "load_audio demo_world ''wavs/silent.wav'' ''dataset'' 10 = Some [0, 0]"
    using t [of "''wavs/silent.wav''"]
    by (simp add: demo_paths demo_world_files demo_normalize)
  have d: "demo_df = (0, \<lparr>audio_path = ''wavs/missing.wav'', text_col = ''no''\<rparr>) # tl demo_df"
    by (simp add: demo_df_def)
  have ex: "\<exists>r \<in> set ([] @ tl demo_df).
      load_audio demo_world (audio_path (snd r)) ''dataset'' 10 \<noteq> None"
    by (simp add: demo_df_def a)
  have m': "load_audio demo_world
      (audio_path \<lparr>audio_path = ''wavs/missing.wav'', text_col = ''no''\<rparr>) ''dataset'' 10 = None"
    using m by simp
  note u = t [of _ "\<lparr>audio_path = ''wavs/missing.wav'', text_col = ''no''\<rparr>" "[]" 0 "tl demo_df"]
  from u m' have s1: "prepare_dataset demo_world
          ([] @ (0, \<lparr>audio_path = ''wavs/missing.wav'', text_col = ''no''\<rparr>) # tl demo_df)
          ''dataset'' =
        prepare_dataset demo_world ([] @ tl demo_df) ''dataset''"
    by blast
  from u m' ex have s2: "prepare_dataset demo_world
          ([] @ (0, \<lparr>audio_path = ''wavs/missing.wav'', text_col = ''no''\<rparr>) # tl demo_df)
          ''dataset'' =
        Inr (Dataset (concat (map (\<lambda>(j, r).
             case load_audio demo_world (audio_path r) ''dataset'' 10 of
               None \<Rightarrow> []
             | Some audio \<Rightarrow>
                 [\<lparr>input_ids = fst (processor demo_world (text_col r) 256),
                   attention_mask = snd (processor demo_world (text_col r) 256),
                   labels = audio, item_text = text_col r\<rparr>]) ([] @ tl demo_df))))"
    by blast
  have p: "processor demo_world ''hi'' 256 = ([7, 7], [1, 1])"
    by (simp add: demo_world_def)
  have items: "concat (map (\<lambda>(j, r).
             case load_audio demo_world (audio_path r) ''dataset'' 10 of
               None \<Rightarrow> []
             | Some audio \<Rightarrow>
                 [\<lparr>input_ids = fst (processor demo_world (text_col r) 256),
                   attention_mask = snd (processor demo_world (text_col r) 256),
                   labels = audio, item_text = text_col r\<rparr>]) ([] @ tl demo_df)) =
        [\<lparr>input_ids = [7, 7], attention_mask = [1, 1], labels = [1, - (1 / 2)],
          item_text = ''hi''\<rparr>]"
    by (simp add: demo_df_def a b p)
  have r1: "prepare_dataset demo_world demo_df ''dataset'' =
     prepare_dataset demo_world (tl demo_df) ''dataset''"
    using s1 d by simp
  have r2: "prepare_dataset demo_world demo_df ''dataset'' =
     Inr (Dataset [\<lparr>input_ids = [7, 7], attention_mask = [1, 1], labels = [1, - (1 / 2)],
                    item_text = ''hi''\<rparr>])"
    using s2 d items by simp
  from m b e a z r1 r2 demo_peaks(2) show ?thesis by blast
qed

text \<open>
  Claim C7 as the specification words it fails at a silent clip and at a dataframe whose
  only row has no file: the clip is loaded and returned with peak 0, not 1, and the run is
  aborted with \<open>ValueError\<close>.
\<close>

theorem load_audio_silent_counterexample:
  "path_exists demo_world (path_join ''dataset'' ''wavs/silent.wav'') \<and>
   librosa_load demo_world (path_join ''dataset'' ''wavs/silent.wav'') 16000 10 = Inr [0, 0] \<and>
   load_audio demo_world ''wavs/silent.wav'' ''dataset'' 10 = Some [0, 0] \<and>
   peak [0, 0] = 0 \<and> peak [0, 0] \<noteq> 1 \<and>
   load_audio demo_world ''wavs/missing.wav'' ''dataset'' 10 = None \<and>
   prepare_dataset demo_world
     [(0, \<lparr>audio_path = ''wavs/missing.wav'', text_col = ''no''\<rparr>)] ''dataset'' =
     Inl ValueError"
proof -
  have z: "load_audio demo_world ''wavs/silent.wav'' ''dataset'' 10 = Some [0, 0]"
    by (simp add: load_audio_def Let_def demo_paths demo_world_files demo_normalize)
  have m: "load_audio demo_world ''wavs/missing.wav'' ''dataset'' 10 = None"
    by (simp add: load_audio_def Let_def demo_paths demo_world_files demo_normalize)
  have v: "prepare_dataset demo_world
     [(0, \<lparr>audio_path = ''wavs/missing.wav'', text_col = ''no''\<rparr>)] ''dataset'' =
     Inl ValueError"
    by (simp add: prepare_dataset_def m)
  from z m v show ?thesis
    by (simp add: demo_paths demo_world_files demo_peaks)
qed

end
